theory Spec2Isabelle
  imports Complex_Main
begin

section \<open>Tensors, parameters and layers\<close>

text \<open>
  The embedding follows \<^verbatim>\<open>src/jet-ssd-train.py\<close>. A tensor is the list of its
  elements; elements are real numbers (finite values: no NaN, no rounding). A parameter
  is \<^verbatim>\<open>m.weight\<close> together with the attributes \<^verbatim>\<open>execute\<close> attaches to it:
  \<^verbatim>\<open>org\<close>, \<^verbatim>\<open>delta\<close> and \<^verbatim>\<open>alpha\<close> exist only once they have been assigned, so
  they are optional and reading one that was never assigned is an AttributeError.
\<close>

type_synonym tensor = "real list"

record parameter =
  data :: tensor
  org :: "tensor option"
  delta :: "real option"
  alpha :: "real option"

datatype error = AttributeError | UnboundLocalError | ValueError | IndexError

text \<open>
  A module of the network is either an \<^verbatim>\<open>nn.Conv2d\<close> with its kernel size, channel
  counts and weight, or any other module (with its weight). \<^verbatim>\<open>net.modules()\<close> is the
  list of the modules.
\<close>

datatype layer =
    Conv2d (kernel_size: "nat \<times> nat") (in_channels: nat) (out_channels: nat) (weight: parameter)
  | Module (weight: parameter)

text \<open>\<^verbatim>\<open>is_first_or_last\<close>, lines 373-377.\<close>

fun is_first_or_last :: "layer \<Rightarrow> bool" where
  "is_first_or_last (Conv2d ks ic oc w) = (ks = (3, 3) \<and> ic > 3 \<and> oc > 4)"
| "is_first_or_last (Module w) = False"

fun upd_weight :: "(parameter \<Rightarrow> parameter) \<Rightarrow> layer \<Rightarrow> layer" where
  "upd_weight f (Conv2d ks ic oc w) = Conv2d ks ic oc (f w)"
| "upd_weight f (Module w) = Module (f w)"

section \<open>Ternary quantization of the eligible layers\<close>

text \<open>
  \<^verbatim>\<open>ssd.qutils\<close> (\<^verbatim>\<open>get_delta\<close>, \<^verbatim>\<open>get_alpha\<close>, \<^verbatim>\<open>to_ternary\<close>) is imported by
  the training script and is not under \<^verbatim>\<open>src/\<close>. The threshold and the scale are
  parameters of the model.
\<close>

record qutils =
  get_delta :: "tensor \<Rightarrow> real"
  get_alpha :: "tensor \<Rightarrow> real \<Rightarrow> real"

text \<open>
  Modelled from the spec: \<^verbatim>\<open>ssd.qutils.to_ternary\<close> is not under \<^verbatim>\<open>src/\<close>. The spec
  (section 4.1) has it overwrite the weight "with a ternary-valued tensor (each element in
  {-alpha, 0, +alpha}) derived by thresholding against delta". The script calls it as
  \<^verbatim>\<open>to_ternary(w, delta, alpha)\<close> (line 192) and as \<^verbatim>\<open>to_ternary(w)\<close> (line 295): an
  argument that is not passed is \<open>None\<close>, and the function, which then has nothing but the
  tensor, takes the missing threshold and scale from \<^verbatim>\<open>get_delta\<close> and \<^verbatim>\<open>get_alpha\<close>
  on that tensor.
\<close>

definition to_ternary :: "qutils \<Rightarrow> tensor \<Rightarrow> real option \<Rightarrow> real option \<Rightarrow> tensor" where
  "to_ternary q w d a =
     (let dl = (case d of None \<Rightarrow> get_delta q w | Some x \<Rightarrow> x);
          al = (case a of None \<Rightarrow> get_alpha q w dl | Some x \<Rightarrow> x)
      in map (\<lambda>x. if dl < x then al else if x < - dl then - al else 0) w)"

text \<open>
  \<^verbatim>\<open>for m in net.modules(): ...\<close> with a body that may raise: the first error ends the
  loop.
\<close>

fun for_modules :: "(layer \<Rightarrow> error + layer) \<Rightarrow> layer list \<Rightarrow> error + layer list" where
  "for_modules f [] = Inr []"
| "for_modules f (m # ms) =
     (case f m of
        Inl e \<Rightarrow> Inl e
      | Inr m' \<Rightarrow> (case for_modules f ms of Inl e \<Rightarrow> Inl e | Inr ms' \<Rightarrow> Inr (m' # ms')))"

text \<open>Lines 179-183, the body of the loop: the per-epoch threshold and scale.\<close>

definition refresh :: "qutils \<Rightarrow> layer \<Rightarrow> layer" where
  "refresh q m =
     (if is_first_or_last m
      then upd_weight (\<lambda>w. w\<lparr>delta := Some (get_delta q (data w)),
                              alpha := Some (get_alpha q (data w) (get_delta q (data w)))\<rparr>) m
      else m)"

text \<open>Lines 189-194, the body of the loop: save the weight, then overwrite it.\<close>

definition ternarize :: "qutils \<Rightarrow> layer \<Rightarrow> error + layer" where
  "ternarize q m =
     (if is_first_or_last m then
        (case delta (weight m) of
           None \<Rightarrow> Inl AttributeError
         | Some d \<Rightarrow>
             (case alpha (weight m) of
                None \<Rightarrow> Inl AttributeError
              | Some a \<Rightarrow>
                  Inr (upd_weight (\<lambda>w. w\<lparr>org := Some (data w),
                                           data := to_ternary q (data w) (Some d) (Some a)\<rparr>) m)))
      else Inr m)"

text \<open>Lines 236-238: \<^verbatim>\<open>m.weight.data.copy_(m.weight.org)\<close>.\<close>

definition restore :: "layer \<Rightarrow> error + layer" where
  "restore m =
     (if is_first_or_last m then
        (case org (weight m) of
           None \<Rightarrow> Inl AttributeError
         | Some saved \<Rightarrow> Inr (upd_weight (\<lambda>w. w\<lparr>data := saved\<rparr>) m))
      else Inr m)"

text \<open>\<^verbatim>\<open>Tensor.clamp_(min, max)\<close> on one element.\<close>

definition clamp :: "real \<Rightarrow> real \<Rightarrow> real \<Rightarrow> real" where
  "clamp x lo hi = min (max x lo) hi"

text \<open>Lines 245-247: \<^verbatim>\<open>m.weight.org.copy_(m.weight.data.clamp_(-1, 1))\<close>.\<close>

definition clamp_shadow :: "layer \<Rightarrow> error + layer" where
  "clamp_shadow m =
     (if is_first_or_last m then
        (case org (weight m) of
           None \<Rightarrow> Inl AttributeError
         | Some saved \<Rightarrow>
             Inr (upd_weight (\<lambda>w. w\<lparr>data := map (\<lambda>x. clamp x (- 1) 1) (data w),
                                      org := Some (map (\<lambda>x. clamp x (- 1) 1) (data w))\<rparr>) m))
      else Inr m)"

text \<open>Lines 292-295, the validation pass: \<^verbatim>\<open>to_ternary\<close> gets the weight alone.\<close>

definition ternarize_val :: "qutils \<Rightarrow> layer \<Rightarrow> layer" where
  "ternarize_val q m =
     (if is_first_or_last m
      then upd_weight (\<lambda>w. w\<lparr>org := Some (data w), data := to_ternary q (data w) None None\<rparr>) m
      else m)"

text \<open>Lines 366-368, after the barrier: \<^verbatim>\<open>m.weight.org.copy_(m.weight.data)\<close>.\<close>

definition sync_shadow :: "layer \<Rightarrow> error + layer" where
  "sync_shadow m =
     (if is_first_or_last m then
        (case org (weight m) of
           None \<Rightarrow> Inl AttributeError
         | Some saved \<Rightarrow> Inr (upd_weight (\<lambda>w. w\<lparr>org := Some (data w)\<rparr>) m))
      else Inr m)"

definition weights :: "layer list \<Rightarrow> tensor list" where
  "weights net = map (\<lambda>m. data (weight m)) net"

text \<open>
  The optimizer writes the new values into the parameters in place, parameter by
  parameter; a parameter it returns no value for keeps its own.
\<close>

definition assign :: "layer list \<Rightarrow> tensor list \<Rightarrow> layer list" where
  "assign net ws =
     map (\<lambda>(i, m). if i < length ws then upd_weight (\<lambda>w. w\<lparr>data := ws ! i\<rparr>) m else m)
       (enumerate 0 net)"

section \<open>Process group and cross-rank reduction\<close>

text \<open>
  \<^verbatim>\<open>setup\<close> (lines 401-406) and \<^verbatim>\<open>cleanup\<close> (lines 409-410). The environment
  variables \<^verbatim>\<open>WORLD_SIZE\<close> and \<^verbatim>\<open>RANK\<close> hold decimal strings in the script; the model
  keeps the numbers they denote. \<open>group\<close> tells whether the process group exists.
\<close>

record dist_env =
  MASTER_ADDR :: string
  MASTER_PORT :: string
  WORLD_SIZE :: nat
  RANK :: nat
  group :: bool

definition setup_group :: "nat \<Rightarrow> nat \<Rightarrow> dist_env" where
  "setup_group rk ws =
     \<lparr>MASTER_ADDR = ''127.0.0.1'', MASTER_PORT = ''11223'', WORLD_SIZE = ws, RANK = rk,
      group = True\<rparr>"

definition cleanup :: "dist_env \<Rightarrow> dist_env" where
  "cleanup env = env\<lparr>group := False\<rparr>"

text \<open>
  \<^verbatim>\<open>dist.all_reduce(t)\<close> with the default sum: the calling rank enters with its own value
  and leaves holding that value plus the values the other ranks of the group entered
  with.
\<close>

definition all_reduce :: "real \<Rightarrow> real list \<Rightarrow> real" where
  "all_reduce t others = t + sum_list others"

text \<open>
  \<^verbatim>\<open>reduce_tensor\<close>, lines 380-393, as one rank runs it. \<open>peers\<close> lists what the other
  ranks pass for (loc, cls, reg, disco) in the same call.
\<close>

definition reduce_tensor ::
  "dist_env \<Rightarrow> real \<Rightarrow> real \<Rightarrow> real \<Rightarrow> real option \<Rightarrow> (real \<times> real \<times> real \<times> real) list
     \<Rightarrow> real \<times> real \<times> real \<times> real option" where
  "reduce_tensor env loc cls reg disco peers =
     (let loc' = all_reduce loc (map (\<lambda>(l, c, r, d). l) peers) / real (WORLD_SIZE env);
          cls' = all_reduce cls (map (\<lambda>(l, c, r, d). c) peers) / real (WORLD_SIZE env);
          reg' = all_reduce reg (map (\<lambda>(l, c, r, d). r) peers) / real (WORLD_SIZE env)
      in (case disco of
            Some dv \<Rightarrow>
              (loc', cls', reg',
               Some (all_reduce dv (map (\<lambda>(l, c, r, d). d) peers) / real (WORLD_SIZE env)))
          | None \<Rightarrow> (loc', cls', reg', None)))"

text \<open>
  The group as a whole: \<^verbatim>\<open>mp.spawn\<close> starts one process per rank, each after
  \<^verbatim>\<open>setup(rank, world_size)\<close>, and in one validation batch all of them call
  \<^verbatim>\<open>reduce_tensor\<close>. \<open>vals\<close> lists by rank what the ranks pass; the peers of rank
  \<open>r\<close> are the entries of the others.
\<close>

definition peers_of :: "nat \<Rightarrow> 'a list \<Rightarrow> 'a list" where
  "peers_of r vals = take r vals @ drop (Suc r) vals"

definition group_reduce ::
  "nat \<Rightarrow> bool \<Rightarrow> (real \<times> real \<times> real \<times> real) list \<Rightarrow> (real \<times> real \<times> real \<times> real option) list" where
  "group_reduce world_size with_disco vals =
     map (\<lambda>r. case vals ! r of (l, c, rg, d) \<Rightarrow>
            reduce_tensor (setup_group r world_size) l c rg (if with_disco then Some d else None)
              (peers_of r vals))
       [0..<length vals]"

section \<open>Loss and metric bookkeeping\<close>

text \<open>
  Modelled from the spec: \<^verbatim>\<open>utils.AverageMeter\<close> is not under \<^verbatim>\<open>src/\<close>. The spec
  (section 3, EpochAccumulator) has it hold the "running mean of each LossVector/MetricVector
  component over a pass", reset at pass start: the last value, the sum, the count and
  their quotient.
\<close>

record AverageMeter =
  val :: real
  avg :: real
  summ :: real
  count :: nat

definition reset :: AverageMeter where
  "reset = \<lparr>val = 0, avg = 0, summ = 0, count = 0\<rparr>"

definition update :: "AverageMeter \<Rightarrow> real \<Rightarrow> AverageMeter" where
  "update mt v =
     \<lparr>val = v, avg = (summ mt + v) / real (count mt + 1), summ = summ mt + v,
      count = count mt + 1\<rparr>"

record meter_set =
  disco :: AverageMeter
  loc :: AverageMeter
  cls :: AverageMeter
  reg :: AverageMeter
  boxPreSUEP :: AverageMeter
  boxPreQCD :: AverageMeter
  boxRecSUEP :: AverageMeter
  boxRecQCD :: AverageMeter
  eventPre :: AverageMeter
  eventRec :: AverageMeter

text \<open>Lines 165-174 and 276-285.\<close>

definition reset_all :: meter_set where
  "reset_all =
     \<lparr>disco = reset, loc = reset, cls = reset, reg = reset, boxPreSUEP = reset,
      boxPreQCD = reset, boxRecSUEP = reset, boxRecQCD = reset, eventPre = reset,
      eventRec = reset\<rparr>"

text \<open>
  What the loss module returns for one batch: the loss terms (\<open>out_d\<close> only in disco
  mode), the box-level metrics and the event-level metrics.
\<close>

record crit_out =
  out_l :: real
  out_c :: real
  out_r :: real
  out_d :: real
  out_boxMetrics :: "real list list"
  out_eventMetrics :: "real list"

text \<open>
  The six reads \<^verbatim>\<open>bm[0][1]\<close>, \<^verbatim>\<open>bm[0][2]\<close>, \<^verbatim>\<open>bm[1][1]\<close>, \<^verbatim>\<open>bm[1][2]\<close>,
  \<^verbatim>\<open>em[0]\<close>, \<^verbatim>\<open>em[1]\<close> of lines 226-231 and 316-321; an index out of range raises.
\<close>

definition metric_values ::
  "real list list \<Rightarrow> real list \<Rightarrow> error + (real \<times> real \<times> real \<times> real \<times> real \<times> real)" where
  "metric_values bm em =
     (if 1 < length bm \<and> 2 < length (bm ! 0) \<and> 2 < length (bm ! 1) \<and> 1 < length em
      then Inr (bm ! 0 ! 1, bm ! 0 ! 2, bm ! 1 ! 1, bm ! 1 ! 2, em ! 0, em ! 1)
      else Inl IndexError)"

text \<open>Lines 218 and 223-231 (training), 308 and 313-321 (validation).\<close>

definition update_meters ::
  "bool \<Rightarrow> meter_set \<Rightarrow> real \<Rightarrow> real \<Rightarrow> real \<Rightarrow> real
     \<Rightarrow> real \<times> real \<times> real \<times> real \<times> real \<times> real \<Rightarrow> meter_set" where
  "update_meters disco_on ms l c r d mv =
     (case mv of (ps, pq, rs, rq, ep, er) \<Rightarrow>
        \<lparr>disco = (if disco_on then update (disco ms) d else disco ms),
         loc = update (loc ms) l,
         cls = update (cls ms) c,
         reg = update (reg ms) r,
         boxPreSUEP = update (boxPreSUEP ms) ps,
         boxPreQCD = update (boxPreQCD ms) pq,
         boxRecSUEP = update (boxRecSUEP ms) rs,
         boxRecQCD = update (boxRecQCD ms) rq,
         eventPre = update (eventPre ms) ep,
         eventRec = update (eventRec ms) er\<rparr>)"

section \<open>Learning-rate schedule and early stopping\<close>

text \<open>
  \<^verbatim>\<open>torch.optim.lr_scheduler.MultiStepLR\<close> (library code): created with
  \<open>last_epoch = 0\<close> and the optimizer's learning rate; each \<^verbatim>\<open>step()\<close> adds one to
  \<open>last_epoch\<close> and multiplies the rate by \<open>gamma\<close> once for every occurrence of
  the new \<open>last_epoch\<close> among the milestones.
\<close>

record MultiStepLR =
  milestones :: "nat list"
  gamma :: real
  last_epoch :: nat
  lr :: real

definition scheduler_step :: "MultiStepLR \<Rightarrow> MultiStepLR" where
  "scheduler_step sc =
     sc\<lparr>last_epoch := last_epoch sc + 1,
        lr := lr sc * gamma sc ^ count_list (milestones sc) (last_epoch sc + 1)\<rparr>"

text \<open>
  The rate the optimizer holds during epoch \<open>k\<close> of the loop of \<^verbatim>\<open>execute\<close>, which
  counts its epochs from 1 (line 153) and steps the schedule at the end of each (line
  369): \<open>k - 1\<close> steps have been taken.
\<close>

definition lr_in_epoch :: "nat list \<Rightarrow> real \<Rightarrow> real \<Rightarrow> nat \<Rightarrow> real" where
  "lr_in_epoch ms g base k =
     lr ((scheduler_step ^^ (k - 1)) \<lparr>milestones = ms, gamma = g, last_epoch = 0, lr = base\<rparr>)"

text \<open>
  Modelled from the spec: \<^verbatim>\<open>ssd.checkpoints.EarlyStopping\<close> is not under \<^verbatim>\<open>src/\<close>.
  Section 4.4: an objective strictly better than the best seen resets the counter (and a
  checkpoint is saved); otherwise the counter goes up by one and the gate halts when it
  reaches the patience.
\<close>

record EarlyStopping =
  patience :: nat
  counter :: nat
  best :: "real option"

definition cp_es_call :: "EarlyStopping \<Rightarrow> real \<Rightarrow> bool \<times> EarlyStopping" where
  "cp_es_call es objective =
     (if (case best es of None \<Rightarrow> True | Some b \<Rightarrow> objective < b)
      then (False, es\<lparr>counter := 0, best := Some objective\<rparr>)
      else (patience es \<le> counter es + 1, es\<lparr>counter := counter es + 1\<rparr>))"

section \<open>The training run of one rank\<close>

text \<open>
  The collaborators of \<^verbatim>\<open>execute\<close> that are outside the script: the data loaders (a
  loader yields the same number of batches in every epoch; \<open>'b\<close> is the type of a
  batch), the FLOP regularizer, the network's forward pass followed by the loss module
  (a function of the weights the forward pass runs on and of the batch), the backward
  pass (the gradients at those weights) and the optimizer behind the gradient scaler
  (\<open>'o\<close> is its state: momentum buffers and loss scale; it maps the learning rate, the
  gradients and the current weights to the new weights). \<open>peer_losses\<close> gives, for a
  validation batch, the loss values the other ranks pass to \<^verbatim>\<open>reduce_tensor\<close>.
\<close>

record ('b, 'o) collaborators =
  qu :: qutils
  train_loader :: "'b list"
  val_loader :: "'b list"
  get_regularization :: "tensor list \<Rightarrow> real"
  criterion :: "tensor list \<Rightarrow> 'b \<Rightarrow> crit_out"
  backward :: "tensor list \<Rightarrow> 'b \<Rightarrow> tensor list"
  optimizer_step :: "'o \<Rightarrow> real \<Rightarrow> tensor list \<Rightarrow> tensor list \<Rightarrow> 'o \<times> tensor list"
  peer_losses :: "'b \<Rightarrow> (real \<times> real \<times> real \<times> real) list"

text \<open>The arguments of \<^verbatim>\<open>execute\<close> that steer it (lines 40-53).\<close>

record args =
  rank :: nat
  world_size :: nat
  ternary :: bool
  int8 :: bool
  flop_regularizer :: bool
  disco_mode :: bool
  max_epochs :: nat
  learning_rate :: real
  patience_pref :: nat

text \<open>
  The status line \<^verbatim>\<open>info\<close> is formatted from the epoch number and the meters (lines
  249-254 and 323-326).
\<close>

datatype info = Epoch_info nat meter_set | Validation_info meter_set

record history =
  train_loss :: "real list list"
  val_loss :: "real list list"
  train_metrics :: "real list list"
  val_metrics :: "real list list"
  train_boxmetrics :: "real list list"
  val_boxmetrics :: "real list list"

text \<open>
  The state of one rank inside the epoch loop. The local variables \<^verbatim>\<open>info\<close>,
  \<^verbatim>\<open>boxMetrics\<close> and \<^verbatim>\<open>rflop\<close> are assigned only inside the batch loops: they are
  unbound (\<open>None\<close>) until then, and reading an unbound local raises UnboundLocalError.
  \<open>cp_es\<close> exists on rank 0 only and is touched there only; \<open>logged\<close> is what rank 0
  has passed to \<^verbatim>\<open>logger.debug\<close>.
\<close>

record 'o state =
  net :: "layer list"
  optimizer :: 'o
  scheduler :: MultiStepLR
  cp_es :: EarlyStopping
  meters :: meter_set
  hist :: history
  info :: "info option"
  boxMetrics :: "real list list option"
  rflop :: "real option"
  logged :: "info list"

text \<open>A \<^verbatim>\<open>for\<close> loop over a loader whose body may raise.\<close>

fun for_batches :: "('s \<Rightarrow> 'b \<Rightarrow> error + 's) \<Rightarrow> 'b list \<Rightarrow> 's \<Rightarrow> error + 's" where
  "for_batches f [] s = Inr s"
| "for_batches f (b # bs) s =
     (case f s b of Inl e \<Rightarrow> Inl e | Inr s' \<Rightarrow> for_batches f bs s')"

text \<open>
  One training batch, lines 185-257. With \<^verbatim>\<open>int8\<close> set, line 203 unpacks into three
  names what the loss module returns (five values, line 220): ValueError.
\<close>

definition train_batch ::
  "('b, 'o) collaborators \<Rightarrow> args \<Rightarrow> nat \<Rightarrow> 'o state \<Rightarrow> 'b \<Rightarrow> error + 'o state" where
  "train_batch E A epoch s b =
     (case (if ternary A then for_modules (ternarize (qu E)) (net s) else Inr (net s)) of
        Inl e \<Rightarrow> Inl e
      | Inr net_t \<Rightarrow>
          (let rf = (if flop_regularizer A then get_regularization E (weights net_t) else 0)
           in if int8 A then Inl ValueError
              else
                (let out = criterion E (weights net_t) b
                 in case metric_values (out_boxMetrics out) (out_eventMetrics out) of
                      Inl e \<Rightarrow> Inl e
                    | Inr mv \<Rightarrow>
                        (let ms = update_meters (disco_mode A) (meters s)
                                    (out_l out) (out_c out) (out_r out) (out_d out) mv;
                             grads = backward E (weights net_t) b
                         in case (if ternary A then for_modules restore net_t else Inr net_t) of
                              Inl e \<Rightarrow> Inl e
                            | Inr net_r \<Rightarrow>
                                (case optimizer_step E (optimizer s) (lr (scheduler s)) grads
                                        (weights net_r) of
                                   (opt', ws) \<Rightarrow>
                                     (case (if ternary A
                                            then for_modules clamp_shadow (assign net_r ws)
                                            else Inr (assign net_r ws)) of
                                        Inl e \<Rightarrow> Inl e
                                      | Inr net_c \<Rightarrow>
                                          Inr (s\<lparr>net := net_c, optimizer := opt', meters := ms,
                                                 boxMetrics := Some (out_boxMetrics out),
                                                 rflop := Some rf,
                                                 info := Some (Epoch_info epoch ms)\<rparr>)))))))"

text \<open>
  One validation batch, lines 297-329. The box-level meters are updated from the local
  \<^verbatim>\<open>boxMetrics\<close> (lines 316-319), the event-level ones from what the loss module
  returned for this batch (lines 320-321).
\<close>

definition val_batch ::
  "('b, 'o) collaborators \<Rightarrow> args \<Rightarrow> dist_env \<Rightarrow> 'o state \<Rightarrow> 'b \<Rightarrow> error + 'o state" where
  "val_batch E A env s b =
     (let out = criterion E (weights (net s)) b
      in case reduce_tensor env (out_l out) (out_c out) (out_r out)
                (if disco_mode A then Some (out_d out) else None) (peer_losses E b) of
           (l, c, r, d) \<Rightarrow>
             (case boxMetrics s of
                None \<Rightarrow> Inl UnboundLocalError
              | Some bm \<Rightarrow>
                  (case metric_values bm (out_eventMetrics out) of
                     Inl e \<Rightarrow> Inl e
                   | Inr mv \<Rightarrow>
                       (let ms = update_meters (disco_mode A) (meters s) l c r
                                   (case d of Some dv \<Rightarrow> dv | None \<Rightarrow> 0) mv
                        in Inr (s\<lparr>meters := ms, info := Some (Validation_info ms)\<rparr>)))))"

text \<open>Lines 259-260 and 331-332: \<^verbatim>\<open>if rank == 0: logger.debug(info)\<close>.\<close>

definition log_info :: "args \<Rightarrow> 'o state \<Rightarrow> error + 'o state" where
  "log_info A s =
     (if rank A = 0
      then (case info s of
              None \<Rightarrow> Inl UnboundLocalError
            | Some i \<Rightarrow> Inr (s\<lparr>logged := logged s @ [i]\<rparr>))
      else Inr s)"

text \<open>Lines 262-265 and 333-336: the columns built from the meters' averages.\<close>

definition loss_column :: "args \<Rightarrow> meter_set \<Rightarrow> real list" where
  "loss_column A ms =
     (if disco_mode A then [avg (loc ms), avg (cls ms), avg (reg ms), avg (disco ms)]
      else [avg (loc ms), avg (cls ms), avg (reg ms)])"

definition metrics_column :: "meter_set \<Rightarrow> real list" where
  "metrics_column ms = [avg (eventPre ms), avg (eventRec ms)]"

definition boxmetrics_column :: "meter_set \<Rightarrow> real list" where
  "boxmetrics_column ms =
     [avg (boxPreSUEP ms), avg (boxPreQCD ms), avg (boxRecSUEP ms), avg (boxRecQCD ms)]"

text \<open>
  The end of an epoch, lines 360-363, on rank \<open>rk\<close>, where \<open>stop\<close> is what the
  early-stopping gate returned on rank 0: \<^verbatim>\<open>break\<close>, or \<^verbatim>\<open>dist.barrier()\<close>.
\<close>

datatype epoch_exit = Break | Barrier

definition epoch_end :: "nat \<Rightarrow> bool \<Rightarrow> epoch_exit" where
  "epoch_end rk stop = (if rk = 0 \<and> stop then Break else Barrier)"

text \<open>
  One epoch, lines 153-369. The result tells whether the loop was left by \<^verbatim>\<open>break\<close>.
  A collective the rank enters is taken to return. Progress bars and plots leave the
  state alone.
\<close>

definition epoch_body ::
  "('b, 'o) collaborators \<Rightarrow> args \<Rightarrow> dist_env \<Rightarrow> 'o state \<Rightarrow> nat \<Rightarrow> error + (bool \<times> 'o state)" where
  "epoch_body E A env s epoch =
     (let s1 = s\<lparr>meters := reset_all\<rparr>;
          s2 = (if ternary A then s1\<lparr>net := map (refresh (qu E)) (net s1)\<rparr> else s1)
      in case for_batches (train_batch E A epoch) (train_loader E) s2 of
           Inl e \<Rightarrow> Inl e
         | Inr s3 \<Rightarrow>
             (case log_info A s3 of
                Inl e \<Rightarrow> Inl e
              | Inr s4 \<Rightarrow>
                  (let s5 = s4\<lparr>hist := (hist s4)
                              \<lparr>train_loss := train_loss (hist s4) @ [loss_column A (meters s4)],
                               train_metrics := train_metrics (hist s4) @ [metrics_column (meters s4)],
                               train_boxmetrics :=
                                 train_boxmetrics (hist s4) @ [boxmetrics_column (meters s4)]\<rparr>\<rparr>;
                       s6 = s5\<lparr>meters := reset_all\<rparr>;
                       s7 = (if ternary A
                             then s6\<lparr>net := map (ternarize_val (qu E)) (net s6)\<rparr> else s6)
                   in case for_batches (val_batch E A env) (val_loader E) s7 of
                        Inl e \<Rightarrow> Inl e
                      | Inr s8 \<Rightarrow>
                          (case log_info A s8 of
                             Inl e \<Rightarrow> Inl e
                           | Inr s9 \<Rightarrow>
                               (let vloss = loss_column A (meters s9);
                                    s10 = s9\<lparr>hist := (hist s9)
                                            \<lparr>val_loss := val_loss (hist s9) @ [vloss],
                                             val_metrics :=
                                               val_metrics (hist s9) @ [metrics_column (meters s9)],
                                             val_boxmetrics :=
                                               val_boxmetrics (hist s9)
                                                 @ [boxmetrics_column (meters s9)]\<rparr>\<rparr>
                                in case (if rank A = 0
                                         then (case rflop s10 of
                                                 None \<Rightarrow> Inl UnboundLocalError
                                               | Some rf \<Rightarrow>
                                                   Inr (cp_es_call (cp_es s10) (sum_list vloss + rf)))
                                         else Inr (False, cp_es s10)) of
                                     Inl e \<Rightarrow> Inl e
                                   | Inr (stop, es') \<Rightarrow>
                                       (case epoch_end (rank A) stop of
                                          Break \<Rightarrow> Inr (True, s10\<lparr>cp_es := es'\<rparr>)
                                        | Barrier \<Rightarrow>
                                            (case (if ternary A
                                                   then for_modules sync_shadow (net s10)
                                                   else Inr (net s10)) of
                                               Inl e \<Rightarrow> Inl e
                                             | Inr net' \<Rightarrow>
                                                 Inr (False,
                                                      s10\<lparr>cp_es := es', net := net',
                                                          scheduler :=
                                                            scheduler_step (scheduler s10)\<rparr>))))))))"

text \<open>\<^verbatim>\<open>for epoch in range(1, max_epochs + 1)\<close>, line 153.\<close>

fun epochs ::
  "('b, 'o) collaborators \<Rightarrow> args \<Rightarrow> dist_env \<Rightarrow> nat list \<Rightarrow> 'o state \<Rightarrow> error + 'o state" where
  "epochs E A env [] s = Inr s"
| "epochs E A env (k # ks) s =
     (case epoch_body E A env s k of
        Inl e \<Rightarrow> Inl e
      | Inr (left, s') \<Rightarrow> if left then Inr s' else epochs E A env ks s')"

text \<open>The state on entry to the epoch loop, lines 111-151.\<close>

definition initial_state :: "args \<Rightarrow> layer list \<Rightarrow> 'o \<Rightarrow> 'o state" where
  "initial_state A net0 opt0 =
     \<lparr>net = net0, optimizer = opt0,
      scheduler = \<lparr>milestones = [20, 30, 50, 60, 70, 80, 90], gamma = 1 / 2, last_epoch = 0,
                   lr = learning_rate A\<rparr>,
      cp_es = \<lparr>patience = patience_pref A, counter = 0, best = None\<rparr>,
      meters = reset_all,
      hist = \<lparr>train_loss = [], val_loss = [], train_metrics = [], val_metrics = [],
              train_boxmetrics = [], val_boxmetrics = []\<rparr>,
      info = None, boxMetrics = None, rflop = None, logged = []\<rparr>"

text \<open>
  \<^verbatim>\<open>execute\<close>, lines 40-370, for the network and the optimizer state it has built:
  \<^verbatim>\<open>setup\<close>, the epoch loop, \<^verbatim>\<open>cleanup\<close>. The result is the process environment the
  rank is left with, and either the exception that ended the run or the final state.
\<close>

definition execute ::
  "('b, 'o) collaborators \<Rightarrow> args \<Rightarrow> layer list \<Rightarrow> 'o \<Rightarrow> dist_env \<times> (error + 'o state)" where
  "execute E A net0 opt0 =
     (let env = setup_group (rank A) (world_size A)
      in case epochs E A env [1..<Suc (max_epochs A)] (initial_state A net0 opt0) of
           Inl e \<Rightarrow> (env, Inl e)
         | Inr s \<Rightarrow> (cleanup env, Inr s))"

text \<open>
  All ranks at the end of an epoch: rank \<open>rk\<close> of \<open>0, ..., world_size - 1\<close> does
  \<open>epoch_end rk stop\<close>. \<^verbatim>\<open>dist.barrier()\<close> returns on a rank once every rank of the
  group has called it.
\<close>

definition ranks_epoch_end :: "nat \<Rightarrow> bool \<Rightarrow> epoch_exit list" where
  "ranks_epoch_end ws stop = map (\<lambda>rk. epoch_end rk stop) [0..<ws]"

definition barrier_returns :: "epoch_exit list \<Rightarrow> bool" where
  "barrier_returns exits = (filter (\<lambda>x. x \<noteq> Barrier) exits = [])"

section \<open>Example inputs\<close>

text \<open>
  Concrete collaborators on which the model is evaluated. The threshold is 0.7 times the
  mean magnitude and the scale is the mean magnitude of the weights above the threshold,
  as in ternary weight networks (the spec asks for a threshold that depends on the
  magnitudes only and a scale that reflects the mean magnitude above it). The loss module
  returns fixed losses and metrics that depend on the batch number; the optimizer is plain
  gradient descent on a gradient of -20 at every element. Batches are numbers.
\<close>

definition example_qutils :: qutils where
  "example_qutils =
     \<lparr>get_delta = (\<lambda>w. 7 / 10 * sum_list (map abs w) / real (length w)),
      get_alpha = (\<lambda>w d. sum_list (map abs (filter (\<lambda>x. d < \<bar>x\<bar>) w))
                            / real (length (filter (\<lambda>x. d < \<bar>x\<bar>) w)))\<rparr>"

definition example_out :: "nat \<Rightarrow> crit_out" where
  "example_out b =
     \<lparr>out_l = 1, out_c = 2, out_r = 3, out_d = 0,
      out_boxMetrics = [[0, real b, real b], [0, real b, real b]],
      out_eventMetrics = [real b, real b]\<rparr>"

definition example_collab :: "nat list \<Rightarrow> nat list \<Rightarrow> (nat, unit) collaborators" where
  "example_collab trs vls =
     \<lparr>qu = example_qutils, train_loader = trs, val_loader = vls,
      get_regularization = (\<lambda>ws. 0),
      criterion = (\<lambda>ws b. example_out b),
      backward = (\<lambda>ws b. map (map (\<lambda>x. - 20)) ws),
      optimizer_step = (\<lambda>opt rate grads ws. (opt, map2 (map2 (\<lambda>w g. w - rate * g)) ws grads)),
      peer_losses = (\<lambda>b. [])\<rparr>"

definition example_args :: "nat \<Rightarrow> nat \<Rightarrow> args" where
  "example_args rk ws =
     \<lparr>rank = rk, world_size = ws, ternary = True, int8 = False, flop_regularizer = False,
      disco_mode = False, max_epochs = 3, learning_rate = 1 / 10, patience_pref = 1\<rparr>"

definition example_net :: "layer list" where
  "example_net =
     [Conv2d (3, 3) 8 16 \<lparr>data = [1 / 2, 1 / 4, - 1 / 10], org = None,
                           delta = Some (77 / 300), alpha = Some (1 / 2)\<rparr>,
      Module \<lparr>data = [3], org = None, delta = None, alpha = None\<rparr>]"

text \<open>The same collaborators with a gradient of -1 at every element.\<close>

definition example_small_steps :: "nat list \<Rightarrow> nat list \<Rightarrow> (nat, unit) collaborators" where
  "example_small_steps trs vls =
     (example_collab trs vls)\<lparr>backward := (\<lambda>ws b. map (map (\<lambda>x. - 1)) ws)\<rparr>"

section \<open>The eligible-layer predicate\<close>

text \<open>
  C9: the predicate holds exactly for the convolutions with a 3x3 kernel, more than 3
  input channels and more than 4 output channels. A 3x3 convolution with 8 input and 16
  output channels is eligible; no 1x1 convolution is; no 3x3 convolution with 3 input
  channels is; no 3x3 convolution with 4 output channels is.
\<close>

theorem is_first_or_last_exact:
  "is_first_or_last m = (\<exists>ic oc w. m = Conv2d (3, 3) ic oc w \<and> 3 < ic \<and> 4 < oc)
   \<and> is_first_or_last (Conv2d (3, 3) 8 16 w1)
   \<and> \<not> is_first_or_last (Conv2d (1, 1) ic2 oc2 w2)
   \<and> \<not> is_first_or_last (Conv2d (3, 3) 3 oc3 w3)
   \<and> \<not> is_first_or_last (Conv2d (3, 3) ic4 4 w4)"
  by (cases m) auto

theorem is_first_or_last_exact_witness:
  "is_first_or_last (Conv2d (3, 3) 8 16 \<lparr>data = [1/2, -1/4], org = None, delta = None, alpha = None\<rparr>)
   \<and> \<not> is_first_or_last (Conv2d (1, 1) 8 16 \<lparr>data = [], org = None, delta = None, alpha = None\<rparr>)
   \<and> \<not> is_first_or_last (Conv2d (3, 3) 3 16 \<lparr>data = [], org = None, delta = None, alpha = None\<rparr>)
   \<and> \<not> is_first_or_last (Conv2d (3, 3) 8 4 \<lparr>data = [], org = None, delta = None, alpha = None\<rparr>)
   \<and> \<not> is_first_or_last (Module \<lparr>data = [], org = None, delta = None, alpha = None\<rparr>)"
  using is_first_or_last_exact
    [of "Module \<lparr>data = [], org = None, delta = None, alpha = None\<rparr>"
        "\<lparr>data = [1/2, -1/4], org = None, delta = None, alpha = None\<rparr>"
        8 16 "\<lparr>data = [], org = None, delta = None, alpha = None\<rparr>"
        16 "\<lparr>data = [], org = None, delta = None, alpha = None\<rparr>"
        8 "\<lparr>data = [], org = None, delta = None, alpha = None\<rparr>"]
  by simp

section \<open>Cross-rank averaging\<close>

lemma sum_peers_of:
  fixes f :: "'a \<Rightarrow> real"
  assumes r: "r < length xs"
  shows "f (xs ! r) + sum_list (map f (peers_of r xs)) = sum_list (map f xs)"
proof -
  have "map f xs = map f (take r xs @ (xs ! r) # drop (Suc r) xs)"
    using r by (simp add: id_take_nth_drop [symmetric])
  then have "sum_list (map f xs)
      = sum_list (map f (take r xs)) + (f (xs ! r) + sum_list (map f (drop (Suc r) xs)))"
    by simp
  then show ?thesis by (simp add: peers_of_def)
qed

text \<open>
  C5: when the \<open>ws\<close> ranks of the group call \<^verbatim>\<open>reduce_tensor\<close> with the loss values
  \<open>vals\<close> they hold, every rank \<open>r\<close> obtains the same result, the arithmetic mean over
  the ranks of each component (the sum divided by the world size). For ranks holding 1, 2,
  3 and 4 every rank obtains 5/2.
\<close>

theorem reduce_tensor_mean:
  assumes "length vals = ws" and "r < ws"
  shows "group_reduce ws with_disco vals ! r =
           (sum_list (map (\<lambda>(l, c, rg, d). l) vals) / real ws,
            sum_list (map (\<lambda>(l, c, rg, d). c) vals) / real ws,
            sum_list (map (\<lambda>(l, c, rg, d). rg) vals) / real ws,
            if with_disco then Some (sum_list (map (\<lambda>(l, c, rg, d). d) vals) / real ws)
            else None)"
proof -
  obtain l c rg d where v: "vals ! r = (l, c, rg, d)"
    by (cases "vals ! r") auto
  have r: "r < length vals"
    using assms by simp
  have a: "l + sum_list (map (\<lambda>(l, c, rg, d). l) (peers_of r vals))
             = sum_list (map (\<lambda>(l, c, rg, d). l) vals)"
    using sum_peers_of [OF r, of "\<lambda>(l, c, rg, d). l"] v by simp
  have b: "c + sum_list (map (\<lambda>(l, c, rg, d). c) (peers_of r vals))
             = sum_list (map (\<lambda>(l, c, rg, d). c) vals)"
    using sum_peers_of [OF r, of "\<lambda>(l, c, rg, d). c"] v by simp
  have c: "rg + sum_list (map (\<lambda>(l, c, rg, d). rg) (peers_of r vals))
             = sum_list (map (\<lambda>(l, c, rg, d). rg) vals)"
    using sum_peers_of [OF r, of "\<lambda>(l, c, rg, d). rg"] v by simp
  have d: "d + sum_list (map (\<lambda>(l, c, rg, d). d) (peers_of r vals))
             = sum_list (map (\<lambda>(l, c, rg, d). d) vals)"
    using sum_peers_of [OF r, of "\<lambda>(l, c, rg, d). d"] v by simp
  show ?thesis
    using r v a b c d assms
    by (simp add: group_reduce_def reduce_tensor_def all_reduce_def setup_group_def Let_def)
qed

theorem reduce_tensor_mean_witness:
  "group_reduce 4 False [(1, 1, 1, 0), (2, 2, 2, 0), (3, 3, 3, 0), (4, 4, 4, 0)] ! 3
     = (5 / 2, 5 / 2, 5 / 2, None)
   \<and> group_reduce 4 True [(1, 8, 0, 2), (2, 8, 0, 2), (3, 8, 0, 2), (4, 8, 0, 4)] ! 0
     = (5 / 2, 8, 0, Some (5 / 2))"
  using reduce_tensor_mean [of "[(1, 1, 1, 0), (2, 2, 2, 0), (3, 3, 3, 0), (4, 4, 4, 0)]" 4 3 False]
    reduce_tensor_mean [of "[(1, 8, 0, 2), (2, 8, 0, 2), (3, 8, 0, 2), (4, 8, 0, 4)]" 4 0 True]
  by simp

section \<open>Facts about the quantization steps\<close>

lemma upd_weight_eligible [simp]: "is_first_or_last (upd_weight f m) = is_first_or_last m"
  by (cases m) auto

lemma weight_upd_weight [simp]: "weight (upd_weight f m) = f (weight m)"
  by (cases m) auto

lemma for_modules_list_all2:
  "for_modules f ms = Inr ms' \<longleftrightarrow> list_all2 (\<lambda>m m'. f m = Inr m') ms ms'"
proof (induction ms arbitrary: ms')
  case Nil
  show ?case by auto
next
  case (Cons m ms)
  show ?case
    by (cases ms') (auto simp: Cons.IH [symmetric] split: sum.splits)
qed

lemma for_modules_total:
  assumes "\<forall>m\<in>set ms. \<exists>m'. f m = Inr m'"
  shows "\<exists>ms'. for_modules f ms = Inr ms'"
  using assms
proof (induction ms)
  case Nil
  show ?case by simp
next
  case (Cons m ms)
  then obtain m' ms' where "f m = Inr m'" "for_modules f ms = Inr ms'"
    by auto
  then show ?case by simp
qed

lemma to_ternary_values: "set (to_ternary q w d (Some a)) \<subseteq> {- a, 0, a}"
  by (auto simp: to_ternary_def Let_def)

lemma ternarize_restore:
  assumes "ternarize q m = Inr mt"
  shows "restore mt =
           Inr (if is_first_or_last m then upd_weight (\<lambda>w. w\<lparr>org := Some (data w)\<rparr>) m else m)"
  using assms
  by (cases m) (auto simp: ternarize_def restore_def split: if_splits option.splits)

lemma clamp_shadow_result:
  assumes "clamp_shadow m = Inr m'" and "is_first_or_last m'"
  shows "(\<forall>x\<in>set (data (weight m')). - 1 \<le> x \<and> x \<le> 1)
           \<and> org (weight m') = Some (data (weight m'))"
  using assms
  by (cases m) (auto simp: clamp_shadow_def clamp_def split: if_splits option.splits)

lemma ternarize_total:
  assumes "is_first_or_last m \<longrightarrow> delta (weight m) \<noteq> None \<and> alpha (weight m) \<noteq> None"
  shows "\<exists>mt. ternarize q m = Inr mt"
  using assms by (auto simp: ternarize_def split: option.splits)

lemma ternarize_result:
  assumes "ternarize q m = Inr mt"
  shows "if is_first_or_last m
         then org (weight mt) = Some (data (weight m))
              \<and> (\<exists>a. alpha (weight m) = Some a \<and> set (data (weight mt)) \<subseteq> {- a, 0, a})
         else mt = m"
proof (cases "is_first_or_last m")
  case False
  with assms show ?thesis by (simp add: ternarize_def)
next
  case True
  with assms obtain d a where da: "delta (weight m) = Some d" "alpha (weight m) = Some a"
    and mt: "mt = upd_weight (\<lambda>w. w\<lparr>org := Some (data w),
                 data := to_ternary q (data w) (Some d) (Some a)\<rparr>) m"
    by (auto simp: ternarize_def split: option.splits)
  have "set (data (weight mt)) \<subseteq> {- a, 0, a}"
    using to_ternary_values [of q "data (weight m)" "Some d" a] by (simp add: mt)
  with True da mt show ?thesis by simp
qed

lemma for_modules_nth:
  assumes "for_modules f ms = Inr ms'"
  shows "length ms' = length ms \<and> (\<forall>i<length ms. f (ms ! i) = Inr (ms' ! i))"
  using assms by (simp add: for_modules_list_all2 list_all2_conv_all_nth)

lemma for_modules_restore:
  assumes "for_modules (ternarize q) ms = Inr mts"
  shows "for_modules restore mts =
           Inr (map (\<lambda>m. if is_first_or_last m
                          then upd_weight (\<lambda>w. w\<lparr>org := Some (data w)\<rparr>) m else m) ms)"
proof -
  from assms have len: "length mts = length ms"
    and nth: "\<forall>i<length ms. ternarize q (ms ! i) = Inr (mts ! i)"
    using for_modules_nth by blast+
  have "\<forall>i<length mts. restore (mts ! i) =
          Inr (if is_first_or_last (ms ! i)
               then upd_weight (\<lambda>w. w\<lparr>org := Some (data w)\<rparr>) (ms ! i) else ms ! i)"
  proof (intro allI impI)
    fix i assume "i < length mts"
    then have "ternarize q (ms ! i) = Inr (mts ! i)"
      using len nth by simp
    then show "restore (mts ! i) =
          Inr (if is_first_or_last (ms ! i)
               then upd_weight (\<lambda>w. w\<lparr>org := Some (data w)\<rparr>) (ms ! i) else ms ! i)"
      by (rule ternarize_restore)
  qed
  then show ?thesis
    using len by (simp add: for_modules_list_all2 list_all2_conv_all_nth)
qed

lemma weights_shadowed:
  "weights (map (\<lambda>m. if is_first_or_last m
                      then upd_weight (\<lambda>w. w\<lparr>org := Some (data w)\<rparr>) m else m) ms) = weights ms"
  by (simp add: weights_def)

lemma assign_members:
  assumes "m' \<in> set (assign ms ws)"
  shows "\<exists>m\<in>set ms. is_first_or_last m' = is_first_or_last m \<and> org (weight m') = org (weight m)"
proof -
  from assms obtain i m where im: "(i, m) \<in> set (enumerate 0 ms)"
    and m': "m' = (if i < length ws then upd_weight (\<lambda>w. w\<lparr>data := ws ! i\<rparr>) m else m)"
    by (auto simp: assign_def)
  from im have "m \<in> set ms"
    by (auto simp: in_set_enumerate_eq)
  with m' show ?thesis by auto
qed

lemma clamp_shadow_total:
  assumes "\<forall>m\<in>set ms. is_first_or_last m \<longrightarrow> org (weight m) \<noteq> None"
  shows "\<exists>ms'. for_modules clamp_shadow (assign ms ws) = Inr ms'"
proof (rule for_modules_total, rule ballI)
  fix m' assume "m' \<in> set (assign ms ws)"
  then obtain m where "m \<in> set ms" "is_first_or_last m' = is_first_or_last m"
    "org (weight m') = org (weight m)"
    using assign_members by blast
  with assms show "\<exists>m''. clamp_shadow m' = Inr m''"
    by (auto simp: clamp_shadow_def split: option.splits)
qed

lemma for_modules_clamp_shadow:
  assumes "for_modules clamp_shadow ms = Inr ms'" and "m' \<in> set ms'" and "is_first_or_last m'"
  shows "(\<forall>x\<in>set (data (weight m')). - 1 \<le> x \<and> x \<le> 1)
           \<and> org (weight m') = Some (data (weight m'))"
proof -
  from assms(1) have "list_all2 (\<lambda>m m'. clamp_shadow m = Inr m') ms ms'"
    by (simp add: for_modules_list_all2)
  with assms(2) obtain m where "clamp_shadow m = Inr m'"
    by (auto simp: list_all2_conv_all_nth in_set_conv_nth)
  with assms(3) show ?thesis
    using clamp_shadow_result by blast
qed

lemma refresh_ready:
  "\<forall>m\<in>set (map (refresh q) ms). is_first_or_last m \<longrightarrow>
      delta (weight m) \<noteq> None \<and> alpha (weight m) \<noteq> None"
  by (auto simp: refresh_def)

lemma train_batch_ternary:
  assumes tern: "ternary A" and ni: "\<not> int8 A"
    and ready: "\<forall>m\<in>set (net s). is_first_or_last m \<longrightarrow>
                  delta (weight m) \<noteq> None \<and> alpha (weight m) \<noteq> None"
    and shaped: "\<forall>ws. metric_values (out_boxMetrics (criterion E ws b))
                        (out_eventMetrics (criterion E ws b)) \<noteq> Inl IndexError"
  shows "\<exists>net_t net_r net_c s'.
           for_modules (ternarize (qu E)) (net s) = Inr net_t
         \<and> for_modules restore net_t = Inr net_r
         \<and> weights net_r = weights (net s)
         \<and> for_modules clamp_shadow
               (assign net_r (snd (optimizer_step E (optimizer s) (lr (scheduler s))
                                     (backward E (weights net_t) b) (weights net_r)))) = Inr net_c
         \<and> train_batch E A ep s b = Inr s'
         \<and> net s' = net_c
         \<and> optimizer s' = fst (optimizer_step E (optimizer s) (lr (scheduler s))
                                  (backward E (weights net_t) b) (weights net_r))"
proof -
  from ready obtain net_t where t: "for_modules (ternarize (qu E)) (net s) = Inr net_t"
    using for_modules_total [of "net s" "ternarize (qu E)"] ternarize_total by blast
  let ?net_r = "map (\<lambda>m. if is_first_or_last m
                          then upd_weight (\<lambda>w. w\<lparr>org := Some (data w)\<rparr>) m else m) (net s)"
  have r: "for_modules restore net_t = Inr ?net_r"
    using t by (rule for_modules_restore)
  have w: "weights ?net_r = weights (net s)"
    by (rule weights_shadowed)
  obtain mv where mv: "metric_values (out_boxMetrics (criterion E (weights net_t) b))
                         (out_eventMetrics (criterion E (weights net_t) b)) = Inr mv"
    using shaped by (auto simp: metric_values_def split: if_splits)
  obtain opt' ws where o: "optimizer_step E (optimizer s) (lr (scheduler s))
      (backward E (weights net_t) b) (weights ?net_r) = (opt', ws)"
    by (cases "optimizer_step E (optimizer s) (lr (scheduler s))
      (backward E (weights net_t) b) (weights ?net_r)") auto
  have "\<forall>m\<in>set ?net_r. is_first_or_last m \<longrightarrow> org (weight m) \<noteq> None"
    by auto
  then obtain net_c where c: "for_modules clamp_shadow (assign ?net_r ws) = Inr net_c"
    using clamp_shadow_total by blast
  let ?ms = "update_meters (disco_mode A) (meters s)
         (out_l (criterion E (weights net_t) b)) (out_c (criterion E (weights net_t) b))
         (out_r (criterion E (weights net_t) b)) (out_d (criterion E (weights net_t) b)) mv"
  have tb: "train_batch E A ep s b = Inr (s\<lparr>net := net_c, optimizer := opt', meters := ?ms,
      boxMetrics := Some (out_boxMetrics (criterion E (weights net_t) b)),
      rflop := Some (if flop_regularizer A then get_regularization E (weights net_t) else 0),
      info := Some (Epoch_info ep ?ms)\<rparr>)"
    unfolding train_batch_def using tern ni t r mv o c by (simp add: Let_def)
  show ?thesis
    using t r w o c tb by (intro exI [of _ net_t] exI [of _ ?net_r] exI [of _ net_c]) simp
qed

lemma val_batch_net: "val_batch E A env s b = Inr s' \<Longrightarrow> net s' = net s"
  by (auto simp: val_batch_def Let_def split: prod.splits option.splits sum.splits)

lemma for_batches_val_net:
  "for_batches (val_batch E A env) bs s = Inr s' \<Longrightarrow> net s' = net s"
proof (induction bs arbitrary: s)
  case Nil
  then show ?case by simp
next
  case (Cons b bs)
  then obtain s1 where 1: "val_batch E A env s b = Inr s1"
    and 2: "for_batches (val_batch E A env) bs s1 = Inr s'"
    by (auto split: sum.splits)
  from Cons.IH [OF 2] val_batch_net [OF 1] show ?case by simp
qed

section \<open>Evaluation on the example inputs\<close>

lemmas ex_defs = example_qutils_def example_out_def example_collab_def example_args_def
  example_net_def

lemmas model_defs = execute_def epoch_body_def train_batch_def val_batch_def log_info_def
  initial_state_def setup_group_def cleanup_def epoch_end_def cp_es_call_def
  loss_column_def metrics_column_def boxmetrics_column_def reset_all_def reset_def update_def
  update_meters_def metric_values_def reduce_tensor_def all_reduce_def scheduler_step_def
  ternarize_def restore_def clamp_shadow_def ternarize_val_def sync_shadow_def refresh_def
  to_ternary_def clamp_def weights_def assign_def Let_def

lemma example_ready:
  "ternary (example_args rk ws)" "\<not> int8 (example_args rk ws)"
  "\<forall>m\<in>set (net (initial_state (example_args rk ws) example_net ())).
      is_first_or_last m \<longrightarrow> delta (weight m) \<noteq> None \<and> alpha (weight m) \<noteq> None"
  "\<forall>ws. metric_values (out_boxMetrics (criterion (example_collab trs vls) ws b))
           (out_eventMetrics (criterion (example_collab trs vls) ws b)) \<noteq> Inl IndexError"
  by (simp_all add: ex_defs initial_state_def metric_values_def del: not_None_eq)

section \<open>The ternary cycle of a training batch\<close>

text \<open>
  C3: in ternary mode, for a network whose eligible layers carry the per-epoch threshold
  and scale (as \<open>refresh\<close> leaves them: \<open>refresh_ready\<close>), one training batch saves
  the weight of every eligible layer in \<open>org\<close> and overwrites it with a tensor whose
  elements are \<open>- alpha\<close>, 0 or \<open>alpha\<close> (other layers are left alone); the restore
  after the backward pass succeeds and gives back exactly the weights from before the
  ternarization; the batch returns, and its one optimizer step is taken on those restored
  weights with the gradients computed at the ternary ones.
\<close>

theorem shadow_restore_round_trip:
  assumes tern: "ternary A" and ni: "\<not> int8 A"
    and ready: "\<forall>m\<in>set (net s). is_first_or_last m \<longrightarrow>
                  delta (weight m) \<noteq> None \<and> alpha (weight m) \<noteq> None"
    and shaped: "\<forall>ws. metric_values (out_boxMetrics (criterion E ws b))
                        (out_eventMetrics (criterion E ws b)) \<noteq> Inl IndexError"
  shows "\<exists>net_t net_r s'.
           for_modules (ternarize (qu E)) (net s) = Inr net_t
         \<and> length net_t = length (net s)
         \<and> (\<forall>i<length (net s).
               if is_first_or_last (net s ! i)
               then org (weight (net_t ! i)) = Some (data (weight (net s ! i)))
                    \<and> (\<exists>a. alpha (weight (net s ! i)) = Some a
                             \<and> set (data (weight (net_t ! i))) \<subseteq> {- a, 0, a})
               else net_t ! i = net s ! i)
         \<and> for_modules restore net_t = Inr net_r
         \<and> weights net_r = weights (net s)
         \<and> train_batch E A ep s b = Inr s'
         \<and> optimizer s' = fst (optimizer_step E (optimizer s) (lr (scheduler s))
                                  (backward E (weights net_t) b) (weights net_r))
         \<and> for_modules clamp_shadow
               (assign net_r (snd (optimizer_step E (optimizer s) (lr (scheduler s))
                                     (backward E (weights net_t) b) (weights net_r))))
             = Inr (net s')"
proof -
  from train_batch_ternary [OF assms, of ep]
  obtain net_t net_r net_c s' where
    t: "for_modules (ternarize (qu E)) (net s) = Inr net_t"
    and r: "for_modules restore net_t = Inr net_r"
    and w: "weights net_r = weights (net s)"
    and c: "for_modules clamp_shadow
               (assign net_r (snd (optimizer_step E (optimizer s) (lr (scheduler s))
                                     (backward E (weights net_t) b) (weights net_r)))) = Inr net_c"
    and tb: "train_batch E A ep s b = Inr s'"
    and n: "net s' = net_c"
    and o: "optimizer s' = fst (optimizer_step E (optimizer s) (lr (scheduler s))
                                  (backward E (weights net_t) b) (weights net_r))"
    by blast
  from t have len: "length net_t = length (net s)"
    and nth: "\<forall>i<length (net s). ternarize (qu E) (net s ! i) = Inr (net_t ! i)"
    using for_modules_nth by blast+
  have each: "\<forall>i<length (net s).
               if is_first_or_last (net s ! i)
               then org (weight (net_t ! i)) = Some (data (weight (net s ! i)))
                    \<and> (\<exists>a. alpha (weight (net s ! i)) = Some a
                             \<and> set (data (weight (net_t ! i))) \<subseteq> {- a, 0, a})
               else net_t ! i = net s ! i"
  proof (intro allI impI)
    fix i assume "i < length (net s)"
    with nth have "ternarize (qu E) (net s ! i) = Inr (net_t ! i)"
      by simp
    then show "if is_first_or_last (net s ! i)
               then org (weight (net_t ! i)) = Some (data (weight (net s ! i)))
                    \<and> (\<exists>a. alpha (weight (net s ! i)) = Some a
                             \<and> set (data (weight (net_t ! i))) \<subseteq> {- a, 0, a})
               else net_t ! i = net s ! i"
      by (rule ternarize_result)
  qed
  show ?thesis
    using t len each r w tb o c n
    by (intro exI [of _ net_t] exI [of _ net_r] exI [of _ s']) simp
qed

theorem shadow_restore_round_trip_witness:
  "(\<exists>net_t net_r s'.
           for_modules (ternarize (qu (example_collab [1] [0])))
             (net (initial_state (example_args 0 1) example_net ())) = Inr net_t
         \<and> length net_t = length (net (initial_state (example_args 0 1) example_net ()))
         \<and> (\<forall>i<length (net (initial_state (example_args 0 1) example_net ())).
               if is_first_or_last (net (initial_state (example_args 0 1) example_net ()) ! i)
               then org (weight (net_t ! i))
                      = Some (data (weight (net (initial_state (example_args 0 1) example_net ()) ! i)))
                    \<and> (\<exists>a. alpha (weight (net (initial_state (example_args 0 1) example_net ()) ! i))
                               = Some a
                             \<and> set (data (weight (net_t ! i))) \<subseteq> {- a, 0, a})
               else net_t ! i = net (initial_state (example_args 0 1) example_net ()) ! i)
         \<and> for_modules restore net_t = Inr net_r
         \<and> weights net_r = weights (net (initial_state (example_args 0 1) example_net ()))
         \<and> train_batch (example_collab [1] [0]) (example_args 0 1) 1
               (initial_state (example_args 0 1) example_net ()) 1 = Inr s'
         \<and> optimizer s'
             = fst (optimizer_step (example_collab [1] [0])
                      (optimizer (initial_state (example_args 0 1) example_net ()))
                      (lr (scheduler (initial_state (example_args 0 1) example_net ())))
                      (backward (example_collab [1] [0]) (weights net_t) 1) (weights net_r))
         \<and> for_modules clamp_shadow
               (assign net_r
                  (snd (optimizer_step (example_collab [1] [0])
                          (optimizer (initial_state (example_args 0 1) example_net ()))
                          (lr (scheduler (initial_state (example_args 0 1) example_net ())))
                          (backward (example_collab [1] [0]) (weights net_t) 1) (weights net_r))))
             = Inr (net s'))
   \<and> for_modules (ternarize example_qutils) example_net
       = Inr [Conv2d (3, 3) 8 16
                \<lparr>data = [1 / 2, 0, 0], org = Some [1 / 2, 1 / 4, - 1 / 10],
                 delta = Some (77 / 300), alpha = Some (1 / 2)\<rparr>,
              Module \<lparr>data = [3], org = None, delta = None, alpha = None\<rparr>]
   \<and> for_modules restore
         [Conv2d (3, 3) 8 16
            \<lparr>data = [1 / 2, 0, 0], org = Some [1 / 2, 1 / 4, - 1 / 10],
             delta = Some (77 / 300), alpha = Some (1 / 2)\<rparr>,
          Module \<lparr>data = [3], org = None, delta = None, alpha = None\<rparr>]
       = Inr [Conv2d (3, 3) 8 16
                \<lparr>data = [1 / 2, 1 / 4, - 1 / 10], org = Some [1 / 2, 1 / 4, - 1 / 10],
                 delta = Some (77 / 300), alpha = Some (1 / 2)\<rparr>,
              Module \<lparr>data = [3], org = None, delta = None, alpha = None\<rparr>]"
proof -
  have b: "for_modules (ternarize example_qutils) example_net
       = Inr [Conv2d (3, 3) 8 16
                \<lparr>data = [1 / 2, 0, 0], org = Some [1 / 2, 1 / 4, - 1 / 10],
                 delta = Some (77 / 300), alpha = Some (1 / 2)\<rparr>,
              Module \<lparr>data = [3], org = None, delta = None, alpha = None\<rparr>]"
    by (simp add: example_net_def ternarize_def to_ternary_def Let_def)
  have c: "for_modules restore
         [Conv2d (3, 3) 8 16
            \<lparr>data = [1 / 2, 0, 0], org = Some [1 / 2, 1 / 4, - 1 / 10],
             delta = Some (77 / 300), alpha = Some (1 / 2)\<rparr>,
          Module \<lparr>data = [3], org = None, delta = None, alpha = None\<rparr>]
       = Inr [Conv2d (3, 3) 8 16
                \<lparr>data = [1 / 2, 1 / 4, - 1 / 10], org = Some [1 / 2, 1 / 4, - 1 / 10],
                 delta = Some (77 / 300), alpha = Some (1 / 2)\<rparr>,
              Module \<lparr>data = [3], org = None, delta = None, alpha = None\<rparr>]"
    by (simp add: restore_def)
  show ?thesis
    by (intro conjI shadow_restore_round_trip [OF example_ready] b c)
qed

text \<open>
  C4: in ternary mode a training batch returns, and after its optimizer step every
  element of the weight of every eligible layer lies in [-1, 1], with \<open>org\<close> holding that
  clamped weight.
\<close>

theorem clamp_invariant:
  assumes tern: "ternary A" and ni: "\<not> int8 A"
    and ready: "\<forall>m\<in>set (net s). is_first_or_last m \<longrightarrow>
                  delta (weight m) \<noteq> None \<and> alpha (weight m) \<noteq> None"
    and shaped: "\<forall>ws. metric_values (out_boxMetrics (criterion E ws b))
                        (out_eventMetrics (criterion E ws b)) \<noteq> Inl IndexError"
  shows "\<exists>s'. train_batch E A ep s b = Inr s'
           \<and> (\<forall>m\<in>set (net s'). is_first_or_last m \<longrightarrow>
                 (\<forall>x\<in>set (data (weight m)). - 1 \<le> x \<and> x \<le> 1)
                 \<and> org (weight m) = Some (data (weight m)))"
proof -
  from train_batch_ternary [OF assms, of ep]
  obtain net_t net_r net_c s' where
    c: "for_modules clamp_shadow
               (assign net_r (snd (optimizer_step E (optimizer s) (lr (scheduler s))
                                     (backward E (weights net_t) b) (weights net_r)))) = Inr net_c"
    and tb: "train_batch E A ep s b = Inr s'"
    and n: "net s' = net_c"
    by blast
  show ?thesis
    using tb n for_modules_clamp_shadow [OF c] by auto
qed

theorem clamp_invariant_witness:
  "(\<exists>s'. train_batch (example_collab [1] [0]) (example_args 0 1) 1
           (initial_state (example_args 0 1) example_net ()) 1 = Inr s'
        \<and> (\<forall>m\<in>set (net s'). is_first_or_last m \<longrightarrow>
              (\<forall>x\<in>set (data (weight m)). - 1 \<le> x \<and> x \<le> 1)
              \<and> org (weight m) = Some (data (weight m))))
   \<and> (case train_batch (example_collab [1] [0]) (example_args 0 1) 1
             (initial_state (example_args 0 1) example_net ()) 1 of
         Inl e \<Rightarrow> False
       | Inr s' \<Rightarrow> weights (net s') = [[1, 1, 1], [5]])"
proof -
  have a: "\<exists>s'. train_batch (example_collab [1] [0]) (example_args 0 1) 1
           (initial_state (example_args 0 1) example_net ()) 1 = Inr s'
        \<and> (\<forall>m\<in>set (net s'). is_first_or_last m \<longrightarrow>
              (\<forall>x\<in>set (data (weight m)). - 1 \<le> x \<and> x \<le> 1)
              \<and> org (weight m) = Some (data (weight m)))"
    by (rule clamp_invariant [OF example_ready])
  have b: "case train_batch (example_collab [1] [0]) (example_args 0 1) 1
             (initial_state (example_args 0 1) example_net ()) 1 of
         Inl e \<Rightarrow> False
       | Inr s' \<Rightarrow> weights (net s') = [[1, 1, 1], [5]]"
    by (simp add: model_defs ex_defs)
  from a b show ?thesis
    by (rule conjI)
qed

section \<open>The validation pass\<close>

text \<open>
  C1, as the claim states it, fails. One epoch of rank 0 on the example network, with one
  training batch and one validation batch: the training pass ends with the eligible
  layer's weight [3/5, 7/20, 0] and the per-epoch threshold 119/600 and scale 3/8 stored
  on it; the epoch ends, not by \<^verbatim>\<open>break\<close>, with the weight [19/40, 19/40, 0]. That is
  neither the weight from before the validation pass nor what the stored threshold and
  scale give on it ([3/8, 3/8, 0]).
\<close>

theorem validation_pass_counterexample:
  "(case for_batches (train_batch (example_small_steps [1] [0]) (example_args 0 1) 1) [1]
          ((initial_state (example_args 0 1) example_net ())
             \<lparr>meters := reset_all, net := map (refresh example_qutils) example_net\<rparr>) of
      Inl e \<Rightarrow> False
    | Inr s3 \<Rightarrow>
        net s3 = [Conv2d (3, 3) 8 16
                    \<lparr>data = [3 / 5, 7 / 20, 0], org = Some [3 / 5, 7 / 20, 0],
                     delta = Some (119 / 600), alpha = Some (3 / 8)\<rparr>,
                  Module \<lparr>data = [31 / 10], org = None, delta = None, alpha = None\<rparr>])
   \<and> (case epoch_body (example_small_steps [1] [0]) (example_args 0 1) (setup_group 0 1)
             (initial_state (example_args 0 1) example_net ()) 1 of
        Inl e \<Rightarrow> False
      | Inr (left, s) \<Rightarrow>
          \<not> left
          \<and> net s = [Conv2d (3, 3) 8 16
                       \<lparr>data = [19 / 40, 19 / 40, 0], org = Some [19 / 40, 19 / 40, 0],
                        delta = Some (119 / 600), alpha = Some (3 / 8)\<rparr>,
                     Module \<lparr>data = [31 / 10], org = None, delta = None, alpha = None\<rparr>])
   \<and> to_ternary example_qutils [3 / 5, 7 / 20, 0] (Some (119 / 600)) (Some (3 / 8))
       = [3 / 8, 3 / 8, 0]
   \<and> [19 / 40, 19 / 40, 0] \<noteq> [3 / 8, 3 / 8, 0 :: real]
   \<and> [19 / 40, 19 / 40, 0] \<noteq> [3 / 5, 7 / 20, 0 :: real]"
  by (simp add: model_defs ex_defs example_small_steps_def)

text \<open>
  C1, amended: in ternary mode, in every epoch that completes, the validation pass starts
  from the network the training pass ended with and saves the weight of every eligible
  layer in \<open>org\<close> and overwrites it with \<^verbatim>\<open>to_ternary\<close> of the weight alone (the
  threshold and scale stored on the layer are not passed and stay as they are); other
  layers are left alone; all validation batches run on the network so ternarized and leave
  it as it is; and it is the network an epoch left by \<^verbatim>\<open>break\<close> ends with.
\<close>

theorem validation_pass_ternarizes:
  assumes tern: "ternary A" and ep: "epoch_body E A env s k = Inr (left, s')"
  shows "\<exists>s3 s4 s8.
           for_batches (train_batch E A k) (train_loader E)
             (s\<lparr>meters := reset_all, net := map (refresh (qu E)) (net s)\<rparr>) = Inr s3
         \<and> log_info A s3 = Inr s4
         \<and> for_batches (val_batch E A env) (val_loader E)
             (s4\<lparr>hist := (hist s4)
                     \<lparr>train_loss := train_loss (hist s4) @ [loss_column A (meters s4)],
                      train_metrics := train_metrics (hist s4) @ [metrics_column (meters s4)],
                      train_boxmetrics :=
                        train_boxmetrics (hist s4) @ [boxmetrics_column (meters s4)]\<rparr>,
                 meters := reset_all,
                 net := map (ternarize_val (qu E)) (net s3)\<rparr>) = Inr s8
         \<and> net s8 = map (ternarize_val (qu E)) (net s3)
         \<and> (\<forall>i<length (net s3).
               if is_first_or_last (net s3 ! i)
               then weight (net s8 ! i)
                      = (weight (net s3 ! i))
                          \<lparr>org := Some (data (weight (net s3 ! i))),
                           data := to_ternary (qu E) (data (weight (net s3 ! i))) None None\<rparr>
               else net s8 ! i = net s3 ! i)
         \<and> (left \<longrightarrow> net s' = net s8)"
proof -
  let ?s2 = "s\<lparr>meters := reset_all, net := map (refresh (qu E)) (net s)\<rparr>"
  from ep tern obtain s3 where t: "for_batches (train_batch E A k) (train_loader E) ?s2 = Inr s3"
    by (cases "for_batches (train_batch E A k) (train_loader E) ?s2")
       (simp_all add: epoch_body_def Let_def)
  from ep tern t obtain s4 where l: "log_info A s3 = Inr s4"
    by (cases "log_info A s3") (simp_all add: epoch_body_def Let_def)
  have n4: "net s4 = net s3"
    using l by (auto simp: log_info_def split: if_splits option.splits)
  let ?s7 = "s4\<lparr>hist := (hist s4)
                     \<lparr>train_loss := train_loss (hist s4) @ [loss_column A (meters s4)],
                      train_metrics := train_metrics (hist s4) @ [metrics_column (meters s4)],
                      train_boxmetrics :=
                        train_boxmetrics (hist s4) @ [boxmetrics_column (meters s4)]\<rparr>,
                 meters := reset_all,
                 net := map (ternarize_val (qu E)) (net s3)\<rparr>"
  from ep tern t l n4 obtain s8 where v: "for_batches (val_batch E A env) (val_loader E) ?s7 = Inr s8"
    by (cases "for_batches (val_batch E A env) (val_loader E) ?s7")
       (simp_all add: epoch_body_def Let_def)
  have n8: "net s8 = map (ternarize_val (qu E)) (net s3)"
    using for_batches_val_net [OF v] by simp
  have each: "\<forall>i<length (net s3).
               if is_first_or_last (net s3 ! i)
               then weight (net s8 ! i)
                      = (weight (net s3 ! i))
                          \<lparr>org := Some (data (weight (net s3 ! i))),
                           data := to_ternary (qu E) (data (weight (net s3 ! i))) None None\<rparr>
               else net s8 ! i = net s3 ! i"
    by (simp add: n8 ternarize_val_def)
  from ep tern t l n4 v obtain s9 where l9: "log_info A s8 = Inr s9"
    by (cases "log_info A s8") (simp_all add: epoch_body_def Let_def)
  have n9: "net s9 = net s8"
    using l9 by (auto simp: log_info_def split: if_splits option.splits)
  have brk: "left \<longrightarrow> net s' = net s8"
    using ep tern t l n4 v l9 n9
    by (auto simp: epoch_body_def Let_def split: sum.splits prod.splits epoch_exit.splits
        if_splits option.splits)
  show ?thesis
    using t l v n8 each brk by (intro exI [of _ s3] exI [of _ s4] exI [of _ s8]) simp
qed

lemma example_small_training:
  "case for_batches (train_batch (example_small_steps [1] [0]) (example_args 0 1) 1)
          (train_loader (example_small_steps [1] [0]))
          ((initial_state (example_args 0 1) example_net ())
             \<lparr>meters := reset_all,
              net := map (refresh (qu (example_small_steps [1] [0])))
                       (net (initial_state (example_args 0 1) example_net ()))\<rparr>) of
     Inl e \<Rightarrow> False
   | Inr s3 \<Rightarrow>
       net s3 = [Conv2d (3, 3) 8 16
                   \<lparr>data = [3 / 5, 7 / 20, 0], org = Some [3 / 5, 7 / 20, 0],
                    delta = Some (119 / 600), alpha = Some (3 / 8)\<rparr>,
                 Module \<lparr>data = [31 / 10], org = None, delta = None, alpha = None\<rparr>]"
  by (simp add: model_defs ex_defs example_small_steps_def)

theorem validation_pass_ternarizes_witness:
  "\<exists>left s' s3 s4 s8.
       epoch_body (example_small_steps [1] [0]) (example_args 0 1) (setup_group 0 1)
         (initial_state (example_args 0 1) example_net ()) 1 = Inr (left, s')
     \<and> for_batches (train_batch (example_small_steps [1] [0]) (example_args 0 1) 1)
          (train_loader (example_small_steps [1] [0]))
          ((initial_state (example_args 0 1) example_net ())
             \<lparr>meters := reset_all,
              net := map (refresh (qu (example_small_steps [1] [0])))
                       (net (initial_state (example_args 0 1) example_net ()))\<rparr>) = Inr s3
     \<and> net s3 = [Conv2d (3, 3) 8 16
                   \<lparr>data = [3 / 5, 7 / 20, 0], org = Some [3 / 5, 7 / 20, 0],
                    delta = Some (119 / 600), alpha = Some (3 / 8)\<rparr>,
                 Module \<lparr>data = [31 / 10], org = None, delta = None, alpha = None\<rparr>]
     \<and> log_info (example_args 0 1) s3 = Inr s4
     \<and> for_batches (val_batch (example_small_steps [1] [0]) (example_args 0 1) (setup_group 0 1))
          (val_loader (example_small_steps [1] [0]))
          (s4\<lparr>hist := (hist s4)
                  \<lparr>train_loss := train_loss (hist s4) @ [loss_column (example_args 0 1) (meters s4)],
                   train_metrics := train_metrics (hist s4) @ [metrics_column (meters s4)],
                   train_boxmetrics :=
                     train_boxmetrics (hist s4) @ [boxmetrics_column (meters s4)]\<rparr>,
              meters := reset_all,
              net := map (ternarize_val (qu (example_small_steps [1] [0]))) (net s3)\<rparr>) = Inr s8
     \<and> net s8 = [Conv2d (3, 3) 8 16
                   \<lparr>data = [19 / 40, 19 / 40, 0], org = Some [3 / 5, 7 / 20, 0],
                    delta = Some (119 / 600), alpha = Some (3 / 8)\<rparr>,
                 Module \<lparr>data = [31 / 10], org = None, delta = None, alpha = None\<rparr>]"
proof -
  let ?E = "example_small_steps [1] [0]"
  let ?A = "example_args 0 1"
  let ?s0 = "initial_state (example_args 0 1) example_net ()"
  have "\<exists>left s'. epoch_body ?E ?A (setup_group 0 1) ?s0 1 = Inr (left, s')"
    by (simp add: model_defs ex_defs example_small_steps_def) blast
  then obtain left s' where ep: "epoch_body ?E ?A (setup_group 0 1) ?s0 1 = Inr (left, s')"
    by blast
  have tern: "ternary ?A"
    by (simp add: example_args_def)
  from validation_pass_ternarizes [OF tern ep]
  obtain s3 s4 s8 where
    t: "for_batches (train_batch ?E ?A 1) (train_loader ?E)
          (?s0\<lparr>meters := reset_all, net := map (refresh (qu ?E)) (net ?s0)\<rparr>) = Inr s3"
    and l: "log_info ?A s3 = Inr s4"
    and v: "for_batches (val_batch ?E ?A (setup_group 0 1)) (val_loader ?E)
          (s4\<lparr>hist := (hist s4)
                  \<lparr>train_loss := train_loss (hist s4) @ [loss_column ?A (meters s4)],
                   train_metrics := train_metrics (hist s4) @ [metrics_column (meters s4)],
                   train_boxmetrics :=
                     train_boxmetrics (hist s4) @ [boxmetrics_column (meters s4)]\<rparr>,
              meters := reset_all,
              net := map (ternarize_val (qu ?E)) (net s3)\<rparr>) = Inr s8"
    and n8: "net s8 = map (ternarize_val (qu ?E)) (net s3)"
    by blast
  have n3: "net s3 = [Conv2d (3, 3) 8 16
                   \<lparr>data = [3 / 5, 7 / 20, 0], org = Some [3 / 5, 7 / 20, 0],
                    delta = Some (119 / 600), alpha = Some (3 / 8)\<rparr>,
                 Module \<lparr>data = [31 / 10], org = None, delta = None, alpha = None\<rparr>]"
    using example_small_training by (simp only: t sum.case)
  have n8': "net s8 = [Conv2d (3, 3) 8 16
                   \<lparr>data = [19 / 40, 19 / 40, 0], org = Some [3 / 5, 7 / 20, 0],
                    delta = Some (119 / 600), alpha = Some (3 / 8)\<rparr>,
                 Module \<lparr>data = [31 / 10], org = None, delta = None, alpha = None\<rparr>]"
    by (simp add: n8 n3 ternarize_val_def to_ternary_def example_small_steps_def
        example_collab_def example_qutils_def Let_def)
  from ep t n3 l v n8' show ?thesis
    by blast
qed

text \<open>
  C6, evaluated on the code: an epoch with one training batch, for which the loss module
  returns box metrics of 1, and one validation batch, for which it returns box and event
  metrics of 0. The validation columns of the history hold 0 for the event metrics and 1
  for the box metrics: the box meters were fed the training batch's values.
\<close>

theorem validation_box_metrics_stale:
  "(case epoch_body (example_collab [1] [0]) (example_args 0 1) (setup_group 0 1)
           (initial_state (example_args 0 1) example_net ()) 1 of
      Inl e \<Rightarrow> False
    | Inr (left, s) \<Rightarrow>
        val_boxmetrics (hist s) = [[1, 1, 1, 1]] \<and> val_metrics (hist s) = [[0, 0]])
   \<and> out_boxMetrics (criterion (example_collab [1] [0]) (weights example_net) 0) = [[0, 0, 0], [0, 0, 0]]
   \<and> out_eventMetrics (criterion (example_collab [1] [0]) (weights example_net) 0) = [0, 0]
   \<and> out_boxMetrics (criterion (example_collab [1] [0]) (weights example_net) 1) = [[0, 1, 1], [0, 1, 1]]"
  by (simp add: model_defs ex_defs)

section \<open>The epoch loop: exceptions, early stopping, teardown\<close>

text \<open>
  C2, evaluated on the code: with two ranks and the gate halting on rank 0, rank 0 leaves
  the loop by \<^verbatim>\<open>break\<close> (and goes on to \<^verbatim>\<open>cleanup\<close>) while rank 1 calls
  \<^verbatim>\<open>dist.barrier()\<close>; the barrier never has all ranks, so it does not return.
\<close>

theorem halt_decision_diverges:
  "ranks_epoch_end 2 True = [Break, Barrier] \<and> \<not> barrier_returns (ranks_epoch_end 2 True)"
  by (simp add: ranks_epoch_end_def barrier_returns_def epoch_end_def upt_conv_Cons)

text \<open>
  C10: when the training loader yields no batch, the first epoch does not complete. On
  rank 0 it raises UnboundLocalError at the logging of \<^verbatim>\<open>info\<close> after the training
  pass (line 260), \<^verbatim>\<open>info\<close> being assigned only inside the batch loops; on any other
  rank it raises UnboundLocalError at the first validation batch, which reads
  \<^verbatim>\<open>boxMetrics\<close> (line 316), assigned only inside the training loop. \<^verbatim>\<open>execute\<close>
  ends with that exception and the process group as \<^verbatim>\<open>setup\<close> left it: no epoch is
  finished.
\<close>

theorem empty_training_pass_raises:
  assumes "train_loader E = []" and "1 \<le> max_epochs A"
    and "rank A = 0 \<or> val_loader E \<noteq> []"
  shows "epoch_body E A env (initial_state A net0 opt0) 1 = Inl UnboundLocalError
         \<and> execute E A net0 opt0
             = (setup_group (rank A) (world_size A), Inl UnboundLocalError)"
proof -
  have e: "epoch_body E A env s k = Inl UnboundLocalError"
    if "info s = None" and "boxMetrics s = None" for env s k
  proof (cases "rank A = 0")
    case True
    with that assms show ?thesis
      by (simp add: epoch_body_def log_info_def Let_def)
  next
    case False
    with assms obtain b bs where v: "val_loader E = b # bs"
      by (cases "val_loader E") auto
    have "val_batch E A env s' b = Inl UnboundLocalError" if "boxMetrics s' = None" for s'
      using that by (simp add: val_batch_def Let_def split: prod.splits)
    with False that assms v show ?thesis
      by (simp add: epoch_body_def log_info_def Let_def)
  qed
  have "[1..<Suc (max_epochs A)] = 1 # [Suc 1..<Suc (max_epochs A)]"
    using assms(2) by (intro upt_conv_Cons) simp
  then show ?thesis
    using e by (simp add: execute_def initial_state_def)
qed

theorem empty_training_pass_raises_witness:
  "execute (example_collab [] [0, 1]) (example_args 0 2) example_net ()
     = (setup_group 0 2, Inl UnboundLocalError)
   \<and> execute (example_collab [] [0, 1]) (example_args 1 2) example_net ()
     = (setup_group 1 2, Inl UnboundLocalError)"
  using empty_training_pass_raises [where A = "example_args 0 2"
      and E = "example_collab [] [0, 1]" and ?net0.0 = example_net and ?opt0.0 = "()"]
    empty_training_pass_raises [where A = "example_args 1 2"
      and E = "example_collab [] [0, 1]" and ?net0.0 = example_net and ?opt0.0 = "()"]
  by (simp add: example_collab_def example_args_def)

text \<open>
  C7, as the claim states it, fails: a run of rank 0 whose training loader is empty ends
  with an exception and the process group still exists.
\<close>

theorem cleanup_skipped_on_exception:
  "group (fst (execute (example_collab [] []) (example_args 0 1) example_net ()))
   \<and> snd (execute (example_collab [] []) (example_args 0 1) example_net ()) = Inl UnboundLocalError"
  by (simp add: model_defs ex_defs upt_conv_Cons)

text \<open>
  C7, amended: \<^verbatim>\<open>execute\<close> destroys the process group exactly when the epoch loop
  ends without an exception, be it after the last epoch or by the \<^verbatim>\<open>break\<close> of early
  stopping (an epoch that ends in \<^verbatim>\<open>break\<close> ends the loop normally); when an exception
  leaves the loop, \<^verbatim>\<open>cleanup\<close> is not run and the environment is as \<^verbatim>\<open>setup\<close> left it.
\<close>

theorem cleanup_iff_no_exception:
  "(case snd (execute E A net0 opt0) of
      Inl e \<Rightarrow> fst (execute E A net0 opt0) = setup_group (rank A) (world_size A)
                 \<and> group (fst (execute E A net0 opt0))
    | Inr s \<Rightarrow> fst (execute E A net0 opt0) = cleanup (setup_group (rank A) (world_size A))
                 \<and> \<not> group (fst (execute E A net0 opt0)))
   \<and> (epoch_body E A env s k = Inr (True, s') \<longrightarrow> epochs E A env (k # ks) s = Inr s')"
  by (simp add: execute_def Let_def setup_group_def cleanup_def split: sum.splits)

theorem cleanup_iff_no_exception_witness:
  "\<not> group (fst (execute (example_collab [1] [0]) (example_args 0 1) example_net ()))
   \<and> (\<exists>s. snd (execute (example_collab [1] [0]) (example_args 0 1) example_net ()) = Inr s
          \<and> last_epoch (scheduler s) = 1 \<and> counter (cp_es s) = 1)"
  using cleanup_iff_no_exception
    [of "example_collab [1] [0]" "example_args 0 1" example_net "()"]
  by (simp add: model_defs ex_defs upt_conv_Cons)

section \<open>The learning-rate schedule\<close>

lemma count_list_filter: "count_list ms e = length (filter (\<lambda>m. m = e) ms)"
  by (induction ms) auto

lemma filter_upto_Suc:
  "a \<le> b \<Longrightarrow> length (filter (\<lambda>m. a < m \<and> m \<le> Suc b) ms)
     = length (filter (\<lambda>m. a < m \<and> m \<le> b) ms) + count_list ms (Suc b)"
  by (induction ms) auto

lemma scheduler_steps:
  "(scheduler_step ^^ n) sc =
     sc\<lparr>last_epoch := last_epoch sc + n,
        lr := lr sc * gamma sc
                ^ length (filter (\<lambda>m. last_epoch sc < m \<and> m \<le> last_epoch sc + n) (milestones sc))\<rparr>"
proof (induction n)
  case 0
  show ?case by simp
next
  case (Suc n)
  have h: "length (filter (\<lambda>m. last_epoch sc < m \<and> m \<le> Suc (last_epoch sc + n)) (milestones sc))
      = length (filter (\<lambda>m. last_epoch sc < m \<and> m \<le> last_epoch sc + n) (milestones sc))
        + count_list (milestones sc) (Suc (last_epoch sc + n))"
    by (rule filter_upto_Suc) simp
  have "(scheduler_step ^^ Suc n) sc = scheduler_step ((scheduler_step ^^ n) sc)"
    by simp
  also have "\<dots> = scheduler_step (sc\<lparr>last_epoch := last_epoch sc + n,
        lr := lr sc * gamma sc
                ^ length (filter (\<lambda>m. last_epoch sc < m \<and> m \<le> last_epoch sc + n) (milestones sc))\<rparr>)"
    by (simp only: Suc)
  also have "\<dots> = sc\<lparr>last_epoch := last_epoch sc + Suc n,
        lr := lr sc * gamma sc
                ^ length (filter (\<lambda>m. last_epoch sc < m \<and> m \<le> last_epoch sc + Suc n) (milestones sc))\<rparr>"
    using h by (simp add: scheduler_step_def power_add mult.assoc)
  finally show ?case .
qed

lemma lr_in_epoch_closed:
  "lr_in_epoch ms g base k = base * g ^ length (filter (\<lambda>m. 0 < m \<and> m < k) ms)"
proof -
  have "(\<lambda>m. 0 < m \<and> m \<le> k - 1) = (\<lambda>m::nat. 0 < m \<and> m < k)"
    by auto
  then show ?thesis
    by (simp add: lr_in_epoch_def scheduler_steps)
qed

text \<open>
  C8, amended: the schedule is stepped once at the end of every epoch and multiplies the
  rate by 0.5 at each milestone, so during epoch \<open>k\<close> of the loop (counted from 1) the
  rate is the initial rate times 0.5 to the number of milestones below \<open>k\<close>. With
  milestones 20 and 30 and initial rate 0.1 the rate is 0.1 during epochs 1 to 20, 0.05
  during epochs 21 to 30 and 0.025 from epoch 31 on.
\<close>

theorem lr_schedule_by_epoch:
  "lr_in_epoch ms (1 / 2) base k = base * (1 / 2) ^ length (filter (\<lambda>m. 0 < m \<and> m < k) ms)
   \<and> (1 \<le> k \<and> k \<le> 20 \<longrightarrow> lr_in_epoch [20, 30] (1 / 2) (1 / 10) k = 1 / 10)
   \<and> (21 \<le> k \<and> k \<le> 30 \<longrightarrow> lr_in_epoch [20, 30] (1 / 2) (1 / 10) k = 1 / 20)
   \<and> (31 \<le> k \<longrightarrow> lr_in_epoch [20, 30] (1 / 2) (1 / 10) k = 1 / 40)"
  by (simp add: lr_in_epoch_closed)

theorem lr_schedule_by_epoch_witness:
  "lr_in_epoch [20, 30] (1 / 2) (1 / 10) 1 = 1 / 10
   \<and> lr_in_epoch [20, 30] (1 / 2) (1 / 10) 20 = 1 / 10
   \<and> lr_in_epoch [20, 30] (1 / 2) (1 / 10) 21 = 1 / 20
   \<and> lr_in_epoch [20, 30] (1 / 2) (1 / 10) 30 = 1 / 20
   \<and> lr_in_epoch [20, 30] (1 / 2) (1 / 10) 31 = 1 / 40
   \<and> lr_in_epoch [20, 30] (1 / 2) (1 / 10) 100 = 1 / 40"
  using lr_schedule_by_epoch [of "[]" 0 1] lr_schedule_by_epoch [of "[]" 0 20]
    lr_schedule_by_epoch [of "[]" 0 21] lr_schedule_by_epoch [of "[]" 0 30]
    lr_schedule_by_epoch [of "[]" 0 31] lr_schedule_by_epoch [of "[]" 0 100]
  by simp

text \<open>
  C8, as the claim states it, fails: during epoch 20 the rate is still 0.1, not 0.05, and
  during epoch 30 it is still 0.05, not 0.025.
\<close>

theorem lr_epoch_20_counterexample:
  "lr_in_epoch [20, 30] (1 / 2) (1 / 10) 20 \<noteq> 1 / 20
   \<and> lr_in_epoch [20, 30] (1 / 2) (1 / 10) 30 \<noteq> 1 / 40"
  by (simp add: lr_in_epoch_closed)

end
